theory Spec2Isabelle
  imports Main "HOL-Library.Word"
begin

section \<open>Data model of \<open>src/ico-editor.js\<close>\<close>

text \<open>
  A Node \<open>Buffer\<close> is a sequence of bytes. JavaScript numbers that the code handles are
  integers here (\<open>int\<close>); buffer offsets, which the code only ever builds from
  non-negative constants and array lengths, are \<open>nat\<close>.
\<close>

type_synonym byte = "8 word"
type_synonym buffer = "byte list"

text \<open>
  Everything that can be thrown or handed to a callback. \<open>Error msg\<close> is
  \<open>new Error(msg)\<close> as built by the module itself; the two buffer errors are what the
  checked \<open>Buffer\<close> accessors throw; \<open>ENOENT\<close> and \<open>EISDIR\<close> are what the \<open>fs\<close>
  module reports for a missing path and for reading a directory.
\<close>

datatype error =
    Error string
  | ValueOutOfBounds
  | IndexOutOfRange
  | ENOENT string
  | EISDIR string

text \<open>
  \<open>ImageInfo\<close>: \<open>img_size\<close> is \<open>target.size\<close>, \<open>img_path\<close> is \<open>target.path\<close> and
  \<open>stat_size\<close> is \<open>target.stat.size\<close>.
\<close>

record ImageInfo =
  img_size :: int
  img_path :: string
  stat_size :: int

record ICOHeader =
  hdr_reserved :: int
  hdr_type :: int
  hdr_count :: int

text \<open>\<open>ICODirectory\<close>: \<open>data_size\<close> and \<open>data_offset\<close> are the fields \<open>size\<close> and \<open>offset\<close>.\<close>

record ICODirectory =
  width :: int
  height :: int
  colors :: int
  reserved :: int
  planes :: int
  bpp :: int
  data_size :: int
  data_offset :: int

definition IcoImageSizes :: "int list" where
  "IcoImageSizes = [16, 24, 32, 48, 64, 128, 256]"

definition headerSize :: nat where
  "headerSize = 6"

definition directorySize :: nat where
  "directorySize = 16"

section \<open>Checked \<open>Buffer\<close> accessors\<close>

text \<open>
  The accessors are called without \<open>noAssert\<close>, so each one checks its arguments first:
  a write throws when the value does not fit the field or the field does not fit the
  buffer, a read throws when the field does not fit the buffer. Multi-byte fields are
  little-endian.
\<close>

definition checkInt :: "buffer \<Rightarrow> int \<Rightarrow> nat \<Rightarrow> nat \<Rightarrow> int \<Rightarrow> int \<Rightarrow> error + unit" where
  "checkInt buf v off ext mx mn =
     (if v > mx \<or> v < mn then Inl ValueOutOfBounds
      else if off + ext > length buf then Inl IndexOutOfRange
      else Inr ())"

definition checkOffset :: "nat \<Rightarrow> nat \<Rightarrow> nat \<Rightarrow> error + unit" where
  "checkOffset off ext len = (if off + ext > len then Inl IndexOutOfRange else Inr ())"

definition writeUInt8 :: "buffer \<Rightarrow> int \<Rightarrow> nat \<Rightarrow> error + buffer" where
  "writeUInt8 buf v off =
     (case checkInt buf v off 1 255 0 of
        Inl e \<Rightarrow> Inl e
      | Inr _ \<Rightarrow> Inr (buf[off := word_of_int v]))"

definition writeUInt16LE :: "buffer \<Rightarrow> int \<Rightarrow> nat \<Rightarrow> error + buffer" where
  "writeUInt16LE buf v off =
     (case checkInt buf v off 2 65535 0 of
        Inl e \<Rightarrow> Inl e
      | Inr _ \<Rightarrow> Inr (buf[off := word_of_int v, off + 1 := word_of_int (v div 256)]))"

definition writeUInt32LE :: "buffer \<Rightarrow> int \<Rightarrow> nat \<Rightarrow> error + buffer" where
  "writeUInt32LE buf v off =
     (case checkInt buf v off 4 4294967295 0 of
        Inl e \<Rightarrow> Inl e
      | Inr _ \<Rightarrow>
          Inr (buf[off + 3 := word_of_int (v div 16777216),
                   off + 2 := word_of_int (v div 65536),
                   off + 1 := word_of_int (v div 256),
                   off := word_of_int v]))"

definition readUInt8 :: "buffer \<Rightarrow> nat \<Rightarrow> error + int" where
  "readUInt8 buf off =
     (case checkOffset off 1 (length buf) of
        Inl e \<Rightarrow> Inl e
      | Inr _ \<Rightarrow> Inr (uint (buf ! off)))"

definition readUInt16LE :: "buffer \<Rightarrow> nat \<Rightarrow> error + int" where
  "readUInt16LE buf off =
     (case checkOffset off 2 (length buf) of
        Inl e \<Rightarrow> Inl e
      | Inr _ \<Rightarrow> Inr (uint (buf ! off) + 256 * uint (buf ! (off + 1))))"

definition readUInt32LE :: "buffer \<Rightarrow> nat \<Rightarrow> error + int" where
  "readUInt32LE buf off =
     (case checkOffset off 4 (length buf) of
        Inl e \<Rightarrow> Inl e
      | Inr _ \<Rightarrow>
          Inr (uint (buf ! off) + 256 * uint (buf ! (off + 1))
                + 65536 * uint (buf ! (off + 2)) + 16777216 * uint (buf ! (off + 3))))"

section \<open>The container reader\<close>

text \<open>Sequencing: an exception thrown by one statement skips the statements after it.\<close>

definition and_then :: "error + 'a \<Rightarrow> ('a \<Rightarrow> error + 'b) \<Rightarrow> error + 'b" where
  "and_then r f = (case r of Inl e \<Rightarrow> Inl e | Inr x \<Rightarrow> f x)"

definition readHeader :: "buffer \<Rightarrow> error + ICOHeader" where
  "readHeader buf =
     and_then (readUInt16LE buf 0) (\<lambda>r.
     and_then (readUInt16LE buf 2) (\<lambda>t.
     and_then (readUInt16LE buf 4) (\<lambda>c.
     Inr \<lparr>hdr_reserved = r, hdr_type = t, hdr_count = c\<rparr>)))"

text \<open>
  \<open>readDirectory\<close> reads \<open>width\<close> with \<open>buffer.readUInt8( 0 )\<close>: at the fixed offset 0,
  not at \<open>offset\<close>. Every other field is read relative to \<open>offset\<close>.
\<close>

definition readDirectory :: "buffer \<Rightarrow> nat \<Rightarrow> error + ICODirectory" where
  "readDirectory buf off =
     and_then (readUInt8 buf 0) (\<lambda>w.
     and_then (readUInt8 buf (off + 1)) (\<lambda>h.
     and_then (readUInt8 buf (off + 2)) (\<lambda>c.
     and_then (readUInt8 buf (off + 3)) (\<lambda>r.
     and_then (readUInt16LE buf (off + 4)) (\<lambda>p.
     and_then (readUInt16LE buf (off + 6)) (\<lambda>b.
     and_then (readUInt32LE buf (off + 8)) (\<lambda>s.
     and_then (readUInt32LE buf (off + 12)) (\<lambda>d.
     Inr \<lparr>width = w, height = h, colors = c, reserved = r, planes = p, bpp = b,
          data_size = s, data_offset = d\<rparr>))))))))"

section \<open>The container writer: header and directory table\<close>

definition writeHeader :: "buffer \<Rightarrow> int \<Rightarrow> int \<Rightarrow> error + buffer" where
  "writeHeader buf type count =
     and_then (writeUInt16LE buf 0 0) (\<lambda>b1.
     and_then (writeUInt16LE b1 type 2) (\<lambda>b2.
     writeUInt16LE b2 count 4))"

text \<open>The fourth byte is written as the constant 0, whatever \<open>directory.reserved\<close> is.\<close>

definition writeDirectory :: "buffer \<Rightarrow> nat \<Rightarrow> ICODirectory \<Rightarrow> error + buffer" where
  "writeDirectory buf off directory =
     and_then (writeUInt8 buf (width directory) off) (\<lambda>b1.
     and_then (writeUInt8 b1 (height directory) (off + 1)) (\<lambda>b2.
     and_then (writeUInt8 b2 (colors directory) (off + 2)) (\<lambda>b3.
     and_then (writeUInt8 b3 0 (off + 3)) (\<lambda>b4.
     and_then (writeUInt16LE b4 (planes directory) (off + 4)) (\<lambda>b5.
     and_then (writeUInt16LE b5 (bpp directory) (off + 6)) (\<lambda>b6.
     and_then (writeUInt32LE b6 (data_size directory) (off + 8)) (\<lambda>b7.
     writeUInt32LE b7 (data_offset directory) (off + 12))))))))"

text \<open>The directory record that \<open>writeDirectories\<close> builds for one target.\<close>

definition target_directory :: "ImageInfo \<Rightarrow> int \<Rightarrow> ICODirectory" where
  "target_directory target imgOffset =
     \<lparr>width = (if 256 \<le> img_size target then 0 else img_size target),
      height = (if 256 \<le> img_size target then 0 else img_size target),
      colors = 0,
      reserved = 0,
      planes = 1,
      bpp = 32,
      data_size = stat_size target,
      data_offset = imgOffset\<rparr>"

text \<open>
  The body of \<open>targets.forEach\<close>, with the two running variables \<open>dirOffset\<close> and
  \<open>imgOffset\<close> as arguments. An exception thrown by a write ends the loop.
\<close>

fun writeDirectories_forEach :: "buffer \<Rightarrow> nat \<Rightarrow> int \<Rightarrow> ImageInfo list \<Rightarrow> error + buffer" where
  "writeDirectories_forEach buf dirOffset imgOffset [] = Inr buf"
| "writeDirectories_forEach buf dirOffset imgOffset (target # rest) =
     (case writeDirectory buf dirOffset (target_directory target imgOffset) of
        Inl e \<Rightarrow> Inl e
      | Inr buf' \<Rightarrow>
          writeDirectories_forEach buf' (dirOffset + directorySize)
            (imgOffset + stat_size target) rest)"

definition writeDirectories :: "buffer \<Rightarrow> ImageInfo list \<Rightarrow> error + buffer" where
  "writeDirectories buf targets =
     writeDirectories_forEach buf headerSize
       (int headerSize + int directorySize * int (length targets)) targets"

section \<open>The size filter\<close>

text \<open>
  \<open>IcoImageSizes.some\<close> with the callback of \<open>filter\<close>: it stops at the first size that is
  strictly equal to \<open>image.size\<close>, and the flag \<open>exists\<close> is set exactly then.
\<close>

fun some_size :: "int \<Rightarrow> int list \<Rightarrow> bool" where
  "some_size s [] = False"
| "some_size s (sz # sizes) = (if s = sz then True else some_size s sizes)"

text \<open>The argument is \<open>None\<close> for \<open>null\<close> or \<open>undefined\<close>.\<close>

definition filter_images :: "ImageInfo list option \<Rightarrow> ImageInfo list" where
  "filter_images images =
     (case images of
        None \<Rightarrow> []
      | Some xs \<Rightarrow>
          if \<not> (0 < length xs) then []
          else filter (\<lambda>image. some_size (img_size image) IcoImageSizes) xs)"

section \<open>The environment of \<open>write\<close>\<close>

text \<open>
  The file system as \<open>write\<close> sees it: a path names nothing, a directory, or a regular
  file with its content.
\<close>

datatype node = Directory | RegularFile buffer

text \<open>
  What the model takes from outside the module: \<open>Path.dirname\<close>, the file system, the
  bytes that \<open>new Buffer( n )\<close> finds in the memory it does not initialise, and how long
  each \<open>Fs.readFile\<close> takes (the read started for target number \<open>k\<close> completes after
  \<open>latency k\<close>).
\<close>

record env =
  Path_dirname :: "string \<Rightarrow> string"
  fs :: "string \<Rightarrow> node option"
  memory :: "nat \<Rightarrow> byte"
  latency :: "nat \<Rightarrow> nat"

text \<open>
  The JavaScript values that the directory check of \<open>write\<close> handles. \<open>JFunction r\<close> is a
  function value; \<open>r\<close> is what a call of it would return.
\<close>

datatype jsval =
    JUndefined
  | JNull
  | JBool bool
  | JNum int
  | JFunction jsval
  | JObject "(string \<times> jsval) list"

fun truthy :: "jsval \<Rightarrow> bool" where
  "truthy JUndefined = False"
| "truthy JNull = False"
| "truthy (JBool b) = b"
| "truthy (JNum n) = (n \<noteq> 0)"
| "truthy (JFunction r) = True"
| "truthy (JObject ps) = True"

text \<open>\<open>a && b\<close> and \<open>o.name\<close>.\<close>

definition js_and :: "jsval \<Rightarrow> jsval \<Rightarrow> jsval" where
  "js_and a b = (if truthy a then b else a)"

fun get_prop :: "jsval \<Rightarrow> string \<Rightarrow> jsval" where
  "get_prop (JObject ps) name = (case map_of ps name of None \<Rightarrow> JUndefined | Some v \<Rightarrow> v)"
| "get_prop v name = JUndefined"

text \<open>The \<open>fs.Stats\<close> object of a node: \<open>isDirectory\<close> and \<open>isFile\<close> are methods.\<close>

definition Stats :: "node \<Rightarrow> jsval" where
  "Stats n =
     JObject [(''isDirectory'', JFunction (JBool (case n of Directory \<Rightarrow> True | RegularFile d \<Rightarrow> False))),
              (''isFile'', JFunction (JBool (case n of Directory \<Rightarrow> False | RegularFile d \<Rightarrow> True))),
              (''size'', JNum (case n of Directory \<Rightarrow> 0 | RegularFile d \<Rightarrow> int (length d)))]"

text \<open>\<open>Fs.statSync\<close> throws for a path that names nothing.\<close>

definition statSync :: "(string \<Rightarrow> node option) \<Rightarrow> string \<Rightarrow> error + jsval" where
  "statSync files p = (case files p of None \<Rightarrow> Inl (ENOENT p) | Some n \<Rightarrow> Inr (Stats n))"

text \<open>The result that \<open>Fs.readFile\<close> hands to its callback: \<open>err\<close> or \<open>data\<close>.\<close>

definition readFile :: "(string \<Rightarrow> node option) \<Rightarrow> string \<Rightarrow> error + buffer" where
  "readFile files p =
     (case files p of
        None \<Rightarrow> Inl (ENOENT p)
      | Some Directory \<Rightarrow> Inl (EISDIR p)
      | Some (RegularFile d) \<Rightarrow> Inr d)"

definition new_Buffer :: "(nat \<Rightarrow> byte) \<Rightarrow> nat \<Rightarrow> buffer" where
  "new_Buffer mem n = map mem [0..<n]"

section \<open>Promises\<close>

text \<open>
  The promises that \<open>writeImages\<close> builds, as terms: \<open>Promise.resolve()\<close>, the promise that
  \<open>writeImage\<close> returns for target number \<open>k\<close>, \<open>p.then( h )\<close> and \<open>p.catch( h )\<close>. The
  argument \<open>h\<close> is one of the three values that the code passes: a promise object (which is
  not a function), \<open>() => { cb(); }\<close> or \<open>( err ) => { cb( err ); }\<close>.
\<close>

datatype promise =
    Promise_resolve
  | Task nat
  | Then promise handler
  | Catch promise handler
and handler =
    PromiseObject promise
  | CallCb
  | CallCbErr

text \<open>
  How a promise settles, and which calls of \<open>cb\<close> that makes. The result is \<open>None\<close> for
  fulfilled and \<open>Some e\<close> for rejected with \<open>e\<close>; the list is the log of the calls of \<open>cb\<close>,
  each with its argument (\<open>None\<close> for no argument). The promise of a task is rejected by
  \<open>reject( err )\<close> when its read fails and fulfilled by \<open>resolve()\<close> otherwise. A handler
  that is not a function is ignored: the new promise settles as the old one does. \<open>cb\<close> is
  taken to return normally.
\<close>

fun settle :: "(nat \<Rightarrow> error + buffer) \<Rightarrow> promise \<Rightarrow> error option list \<Rightarrow> error option \<times> error option list" where
  "settle rd Promise_resolve log = (None, log)"
| "settle rd (Task k) log = (case rd k of Inl e \<Rightarrow> (Some e, log) | Inr d \<Rightarrow> (None, log))"
| "settle rd (Then p h) log =
     (case settle rd p log of
        (Some e, log') \<Rightarrow> (Some e, log')
      | (None, log') \<Rightarrow>
          (case h of
             PromiseObject q \<Rightarrow> (None, log')
           | CallCb \<Rightarrow> (None, log' @ [None])
           | CallCbErr \<Rightarrow> (None, log' @ [None])))"
| "settle rd (Catch p h) log =
     (case settle rd p log of
        (None, log') \<Rightarrow> (None, log')
      | (Some e, log') \<Rightarrow>
          (case h of
             PromiseObject q \<Rightarrow> (Some e, log')
           | CallCb \<Rightarrow> (None, log' @ [None])
           | CallCbErr \<Rightarrow> (None, log' @ [Some e])))"

section \<open>The container writer: \<open>writeImages\<close> and \<open>write\<close>\<close>

text \<open>
  What a call of \<open>write\<close> has done once the event loop is idle: the exception that left
  \<open>write\<close>, if any; the chunks passed to \<open>stream.write\<close>, in order (\<open>None\<close> when
  \<open>Fs.createWriteStream\<close> was never called, so that the destination is untouched); and
  the calls of \<open>cb\<close>, in order.
\<close>

record outcome =
  thrown :: "error option"
  stream :: "buffer list option"
  callbacks :: "error option list"

text \<open>
  \<open>targets.map\<close> calls \<open>writeImage\<close> for every target, and \<open>new Promise\<close> runs its
  executor at once: all reads are started before \<open>writeImages\<close> returns. The callback of
  each read writes its \<open>data\<close> to the stream when that read completes, so the chunks
  arrive in the order of completion: by latency, and in the order of the targets where
  latencies are equal.
\<close>

definition completion_order :: "(nat \<Rightarrow> nat) \<Rightarrow> nat \<Rightarrow> nat list" where
  "completion_order lat n = sort_key lat [0..<n]"

fun readFile_callbacks :: "(nat \<Rightarrow> error + buffer) \<Rightarrow> nat list \<Rightarrow> buffer list \<Rightarrow> buffer list" where
  "readFile_callbacks rd [] chunks = chunks"
| "readFile_callbacks rd (k # ks) chunks =
     (case rd k of
        Inl err \<Rightarrow> readFile_callbacks rd ks chunks
      | Inr data \<Rightarrow> readFile_callbacks rd ks (chunks @ [data]))"

definition writeImages :: "env \<Rightarrow> buffer list \<Rightarrow> ImageInfo list \<Rightarrow> outcome" where
  "writeImages e chunks targets =
     (let rd = (\<lambda>k. readFile (fs e) (img_path (targets ! k)));
          tasks = map Task [0..<length targets];
          chain = foldl (\<lambda>prev current. Then prev (PromiseObject current)) Promise_resolve tasks;
          settled = settle rd (Catch (Then chain CallCb) CallCbErr) []
      in \<lparr>thrown = None,
          stream = Some (readFile_callbacks rd (completion_order (latency e) (length targets)) chunks),
          callbacks = snd settled\<rparr>)"

definition invalid_targets :: error where
  "invalid_targets =
     Error ''Invalid arguments: It does not contain the information necessary for the \"images\".''"

definition invalid_dest :: error where
  "invalid_dest = Error ''Invalid arguments: \"dest\" of the parent directory does not exist.''"

text \<open>The test \<open>!( stat && stat.isDirectory )\<close>: the method is not called.\<close>

definition not_a_directory :: "jsval \<Rightarrow> bool" where
  "not_a_directory stat = (\<not> truthy (js_and stat (get_prop stat ''isDirectory'')))"

definition IcoEditor_write :: "env \<Rightarrow> ImageInfo list \<Rightarrow> string \<Rightarrow> outcome" where
  "IcoEditor_write e targets dest =
     (if \<not> (length targets \<noteq> 0)
      then \<lparr>thrown = None, stream = None, callbacks = [Some invalid_targets]\<rparr>
      else
        (case statSync (fs e) (Path_dirname e dest) of
           Inl err \<Rightarrow> \<lparr>thrown = Some err, stream = None, callbacks = []\<rparr>
         | Inr stat \<Rightarrow>
             (if not_a_directory stat
              then \<lparr>thrown = None, stream = None, callbacks = [Some invalid_dest]\<rparr>
              else
                (case and_then
                        (writeHeader
                           (new_Buffer (memory e) (headerSize + directorySize * length targets))
                           1 (int (length targets)))
                        (\<lambda>buffer. writeDirectories buffer targets) of
                   Inl err \<Rightarrow> \<lparr>thrown = Some err, stream = None, callbacks = []\<rparr>
                 | Inr buffer \<Rightarrow> writeImages e [buffer] targets))))"

text \<open>An error of the kind \<open>InvalidArguments\<close>: an \<open>Error\<close> whose message says so.\<close>

fun InvalidArguments :: "error \<Rightarrow> bool" where
  "InvalidArguments (Error msg) = (take 17 msg = ''Invalid arguments'')"
| "InvalidArguments e = False"

section \<open>Auxiliary definitions\<close>

text \<open>
  The buffer holds the directory entry \<open>d\<close> at \<open>off\<close>: every field, read with the
  accessor and at the place that \<open>writeDirectory\<close> uses for it, has the value of \<open>d\<close>
  (and the reserved byte is 0).
\<close>

definition holds_entry :: "buffer \<Rightarrow> nat \<Rightarrow> ICODirectory \<Rightarrow> bool" where
  "holds_entry buf off d =
     (readUInt8 buf off = Inr (width d)
      \<and> readUInt8 buf (off + 1) = Inr (height d)
      \<and> readUInt8 buf (off + 2) = Inr (colors d)
      \<and> readUInt8 buf (off + 3) = Inr 0
      \<and> readUInt16LE buf (off + 4) = Inr (planes d)
      \<and> readUInt16LE buf (off + 6) = Inr (bpp d)
      \<and> readUInt32LE buf (off + 8) = Inr (data_size d)
      \<and> readUInt32LE buf (off + 12) = Inr (data_offset d))"

text \<open>The block that \<open>write\<close> hands to the stream first: header and directory table.\<close>

definition header_and_directories :: "(nat \<Rightarrow> byte) \<Rightarrow> ImageInfo list \<Rightarrow> error + buffer" where
  "header_and_directories mem targets =
     and_then
       (writeHeader (new_Buffer mem (headerSize + directorySize * length targets))
          1 (int (length targets)))
       (\<lambda>buffer. writeDirectories buffer targets)"

text \<open>
  A sufficient condition for every field of the header and of the directory table to fit
  its width: at most 65535 targets, no negative size or length, and a file that ends
  below 4 GiB.
\<close>

definition fields_fit :: "ImageInfo list \<Rightarrow> bool" where
  "fields_fit targets =
     (length targets \<le> 65535
      \<and> list_all (\<lambda>t. 0 \<le> img_size t \<and> 0 \<le> stat_size t) targets
      \<and> 6 + 16 * int (length targets) + sum_list (map stat_size targets) \<le> 4294967295)"

subsection \<open>Sample inputs\<close>

text \<open>
  A \<open>dirname\<close> for POSIX paths, a file system with the directory \<open>/tmp\<close> and two image
  files in it, and three targets; the file of the third does not exist.
\<close>

fun strip_slashes :: "string \<Rightarrow> string" where
  "strip_slashes p = rev (dropWhile (\<lambda>c. c = CHR ''/'') (rev p))"

definition dirname_posix :: "string \<Rightarrow> string" where
  "dirname_posix p =
     (let q = strip_slashes p;
          d = strip_slashes (rev (dropWhile (\<lambda>c. c \<noteq> CHR ''/'') (rev q)))
      in if q = [] then (if p = [] then ''.'' else ''/'')
         else if d = [] then (if CHR ''/'' \<in> set q then ''/'' else ''.'')
         else d)"

definition sample_fs :: "string \<Rightarrow> node option" where
  "sample_fs p =
     (if p = ''/tmp'' then Some Directory
      else if p = ''/tmp/16.png'' then Some (RegularFile [1, 2, 3])
      else if p = ''/tmp/256.png'' then Some (RegularFile [4, 5])
      else None)"

definition sample_env :: "(nat \<Rightarrow> nat) \<Rightarrow> env" where
  "sample_env lat =
     \<lparr>Path_dirname = dirname_posix, fs = sample_fs, memory = (\<lambda>i. 255), latency = lat\<rparr>"

definition t16 :: ImageInfo where
  "t16 = \<lparr>img_size = 16, img_path = ''/tmp/16.png'', stat_size = 3\<rparr>"

definition t256 :: ImageInfo where
  "t256 = \<lparr>img_size = 256, img_path = ''/tmp/256.png'', stat_size = 2\<rparr>"

definition t32 :: ImageInfo where
  "t32 = \<lparr>img_size = 32, img_path = ''/tmp/32.png'', stat_size = 7\<rparr>"

text \<open>The header and directory table of the targets \<open>t16\<close> and \<open>t256\<close>, in this order.\<close>

definition sample_block :: buffer where
  "sample_block =
     [0, 0, 1, 0, 2, 0,
      16, 16, 0, 0, 1, 0, 32, 0, 3, 0, 0, 0, 38, 0, 0, 0,
      0, 0, 0, 0, 1, 0, 32, 0, 2, 0, 0, 0, 41, 0, 0, 0]"

text \<open>A buffer of 38 bytes with the header written and the directory table not yet.\<close>

definition header_block :: buffer where
  "header_block = [0, 0, 1, 0, 2, 0] @ replicate 32 255"

text \<open>Two destinations: one below a regular file, one below a path that names nothing.\<close>

definition dest_below_file :: string where
  "dest_below_file = ''/tmp/16.png/app.ico''"

definition dest_below_nothing :: string where
  "dest_below_nothing = ''/nowhere/app.ico''"

section \<open>Bytes and fields\<close>

lemma uint_byte: "uint (word_of_int v :: byte) = v mod 256"
  by (simp add: uint_word_of_int_eq take_bit_eq_mod)

lemma le16_roundtrip:
  "0 \<le> v \<Longrightarrow> v \<le> 65535 \<Longrightarrow> v mod 256 + 256 * (v div 256 mod 256) = (v::int)"
  by simp

lemma le32_roundtrip:
  assumes "0 \<le> v" "v \<le> 4294967295"
  shows "v mod 256 + 256 * (v div 256 mod 256) + 65536 * (v div 65536 mod 256)
     + 16777216 * (v div 16777216 mod 256) = (v::int)"
proof -
  define a where "a = v div 256"
  define b where "b = a div 256"
  define c where "c = b div 256"
  have b: "v div 65536 = b"
    using zdiv_zmult2_eq [of 256 v 256] by (simp add: a_def b_def)
  have c: "v div 16777216 = c"
    using zdiv_zmult2_eq [of 256 v 65536] b zdiv_zmult2_eq [of 256 v 256] zdiv_zmult2_eq [of 256 a 256] by (simp add: c_def b_def a_def)
  have v: "v = v mod 256 + 256 * a" by (simp add: a_def)
  have a: "a = a mod 256 + 256 * b" by (simp add: b_def)
  have b': "b = b mod 256 + 256 * c" by (simp add: c_def)
  have "0 \<le> c" "c < 256" using assms by (simp_all add: c_def b_def a_def)
  then have c': "c mod 256 = c" by simp
  show ?thesis
    unfolding b c c' a_def [symmetric] using v a b' by linarith
qed

lemma writeUInt8_Inr:
  "writeUInt8 buf v off = Inr buf' \<Longrightarrow>
   0 \<le> v \<and> v \<le> 255 \<and> off + 1 \<le> length buf \<and> buf' = buf[off := word_of_int v]"
  by (auto simp: writeUInt8_def checkInt_def split: if_splits)

lemma writeUInt16LE_Inr:
  "writeUInt16LE buf v off = Inr buf' \<Longrightarrow>
   0 \<le> v \<and> v \<le> 65535 \<and> off + 2 \<le> length buf
   \<and> buf' = buf[off := word_of_int v, off + 1 := word_of_int (v div 256)]"
  by (auto simp: writeUInt16LE_def checkInt_def split: if_splits)

lemma writeUInt32LE_Inr:
  "writeUInt32LE buf v off = Inr buf' \<Longrightarrow>
   0 \<le> v \<and> v \<le> 4294967295 \<and> off + 4 \<le> length buf
   \<and> buf' = buf[off + 3 := word_of_int (v div 16777216),
                off + 2 := word_of_int (v div 65536),
                off + 1 := word_of_int (v div 256),
                off := word_of_int v]"
  by (auto simp: writeUInt32LE_def checkInt_def split: if_splits)

text \<open>One write, read back; and what it leaves alone.\<close>

lemma writeUInt8_read:
  "writeUInt8 buf v off = Inr buf' \<Longrightarrow> readUInt8 buf' off = Inr v"
  by (drule writeUInt8_Inr) (simp add: readUInt8_def checkOffset_def uint_byte)

lemma writeUInt16LE_read:
  "writeUInt16LE buf v off = Inr buf' \<Longrightarrow> readUInt16LE buf' off = Inr v"
  by (drule writeUInt16LE_Inr) (simp add: readUInt16LE_def checkOffset_def uint_byte le16_roundtrip)

lemma writeUInt32LE_read:
  "writeUInt32LE buf v off = Inr buf' \<Longrightarrow> readUInt32LE buf' off = Inr v"
  by (drule writeUInt32LE_Inr) (simp add: readUInt32LE_def checkOffset_def uint_byte le32_roundtrip)

lemma writeUInt8_frame:
  "writeUInt8 buf v off = Inr buf' \<Longrightarrow>
   length buf' = length buf \<and> (\<forall>j. j < off \<or> off + 1 \<le> j \<longrightarrow> buf' ! j = buf ! j)"
  by (drule writeUInt8_Inr) auto

lemma writeUInt16LE_frame:
  "writeUInt16LE buf v off = Inr buf' \<Longrightarrow>
   length buf' = length buf \<and> (\<forall>j. j < off \<or> off + 2 \<le> j \<longrightarrow> buf' ! j = buf ! j)"
  by (drule writeUInt16LE_Inr) auto

lemma writeUInt32LE_frame:
  "writeUInt32LE buf v off = Inr buf' \<Longrightarrow>
   length buf' = length buf \<and> (\<forall>j. j < off \<or> off + 4 \<le> j \<longrightarrow> buf' ! j = buf ! j)"
  by (drule writeUInt32LE_Inr) auto

text \<open>A read depends only on the length of the buffer and on the bytes of its field.\<close>

lemma readUInt8_cong:
  "length b' = length b \<Longrightarrow> b' ! off = b ! off \<Longrightarrow> readUInt8 b' off = readUInt8 b off"
  by (simp add: readUInt8_def split: sum.splits)

lemma readUInt16LE_cong:
  "length b' = length b \<Longrightarrow> (\<forall>j. off \<le> j \<and> j < off + 2 \<longrightarrow> b' ! j = b ! j) \<Longrightarrow>
   readUInt16LE b' off = readUInt16LE b off"
  by (simp add: readUInt16LE_def checkOffset_def)

lemma readUInt32LE_cong:
  "length b' = length b \<Longrightarrow> (\<forall>j. off \<le> j \<and> j < off + 4 \<longrightarrow> b' ! j = b ! j) \<Longrightarrow>
   readUInt32LE b' off = readUInt32LE b off"
  by (simp add: readUInt32LE_def checkOffset_def)

section \<open>One directory entry\<close>

lemma holds_entry_cong:
  assumes "length b' = length b" and "\<And>j. off \<le> j \<Longrightarrow> j < off + 16 \<Longrightarrow> b' ! j = b ! j"
  shows "holds_entry b' off d = holds_entry b off d"
proof -
  have "readUInt8 b' off = readUInt8 b off"
    using assms by (intro readUInt8_cong) simp_all
  moreover have "readUInt8 b' (off + 1) = readUInt8 b (off + 1)"
    using assms by (intro readUInt8_cong) simp_all
  moreover have "readUInt8 b' (off + 2) = readUInt8 b (off + 2)"
    using assms by (intro readUInt8_cong) simp_all
  moreover have "readUInt8 b' (off + 3) = readUInt8 b (off + 3)"
    using assms by (intro readUInt8_cong) simp_all
  moreover have "readUInt16LE b' (off + 4) = readUInt16LE b (off + 4)"
    using assms by (intro readUInt16LE_cong) simp_all
  moreover have "readUInt16LE b' (off + 6) = readUInt16LE b (off + 6)"
    using assms by (intro readUInt16LE_cong) simp_all
  moreover have "readUInt32LE b' (off + 8) = readUInt32LE b (off + 8)"
    using assms by (intro readUInt32LE_cong) simp_all
  moreover have "readUInt32LE b' (off + 12) = readUInt32LE b (off + 12)"
    using assms by (intro readUInt32LE_cong) simp_all
  ultimately show ?thesis
    unfolding holds_entry_def by presburger
qed

lemma writeDirectory_steps:
  assumes "writeDirectory buf off d = Inr buf'"
  obtains b1 b2 b3 b4 b5 b6 b7 where
    "writeUInt8 buf (width d) off = Inr b1"
    "writeUInt8 b1 (height d) (off + 1) = Inr b2"
    "writeUInt8 b2 (colors d) (off + 2) = Inr b3"
    "writeUInt8 b3 0 (off + 3) = Inr b4"
    "writeUInt16LE b4 (planes d) (off + 4) = Inr b5"
    "writeUInt16LE b5 (bpp d) (off + 6) = Inr b6"
    "writeUInt32LE b6 (data_size d) (off + 8) = Inr b7"
    "writeUInt32LE b7 (data_offset d) (off + 12) = Inr buf'"
  using assms unfolding writeDirectory_def and_then_def
  by (auto split: sum.splits)

lemma writeDirectory_frame:
  assumes "writeDirectory buf off d = Inr buf'"
  shows "length buf' = length buf" and "off + 16 \<le> length buf"
    and "j < off \<or> off + 16 \<le> j \<Longrightarrow> buf' ! j = buf ! j"
proof -
  from assms obtain b1 b2 b3 b4 b5 b6 b7 where w:
    "writeUInt8 buf (width d) off = Inr b1"
    "writeUInt8 b1 (height d) (off + 1) = Inr b2"
    "writeUInt8 b2 (colors d) (off + 2) = Inr b3"
    "writeUInt8 b3 0 (off + 3) = Inr b4"
    "writeUInt16LE b4 (planes d) (off + 4) = Inr b5"
    "writeUInt16LE b5 (bpp d) (off + 6) = Inr b6"
    "writeUInt32LE b6 (data_size d) (off + 8) = Inr b7"
    "writeUInt32LE b7 (data_offset d) (off + 12) = Inr buf'"
    by (rule writeDirectory_steps)
  note f = writeUInt8_frame [OF w(1)] writeUInt8_frame [OF w(2)] writeUInt8_frame [OF w(3)]
    writeUInt8_frame [OF w(4)] writeUInt16LE_frame [OF w(5)] writeUInt16LE_frame [OF w(6)]
    writeUInt32LE_frame [OF w(7)] writeUInt32LE_frame [OF w(8)]
  show "length buf' = length buf" using f by simp
  show "off + 16 \<le> length buf" using writeUInt32LE_Inr [OF w(8)] f by simp
  show "buf' ! j = buf ! j" if "j < off \<or> off + 16 \<le> j" using that f by auto
qed

lemma writeDirectory_holds:
  assumes "writeDirectory buf off d = Inr buf'"
  shows "holds_entry buf' off d"
proof -
  from assms obtain b1 b2 b3 b4 b5 b6 b7 where w:
    "writeUInt8 buf (width d) off = Inr b1"
    "writeUInt8 b1 (height d) (off + 1) = Inr b2"
    "writeUInt8 b2 (colors d) (off + 2) = Inr b3"
    "writeUInt8 b3 0 (off + 3) = Inr b4"
    "writeUInt16LE b4 (planes d) (off + 4) = Inr b5"
    "writeUInt16LE b5 (bpp d) (off + 6) = Inr b6"
    "writeUInt32LE b6 (data_size d) (off + 8) = Inr b7"
    "writeUInt32LE b7 (data_offset d) (off + 12) = Inr buf'"
    by (rule writeDirectory_steps)
  note f = writeUInt8_frame [OF w(1)] writeUInt8_frame [OF w(2)] writeUInt8_frame [OF w(3)]
    writeUInt8_frame [OF w(4)] writeUInt16LE_frame [OF w(5)] writeUInt16LE_frame [OF w(6)]
    writeUInt32LE_frame [OF w(7)] writeUInt32LE_frame [OF w(8)]
  have "readUInt8 buf' off = readUInt8 b1 off"
    using f by (intro readUInt8_cong) simp_all
  moreover have "readUInt8 buf' (off + 1) = readUInt8 b2 (off + 1)"
    using f by (intro readUInt8_cong) simp_all
  moreover have "readUInt8 buf' (off + 2) = readUInt8 b3 (off + 2)"
    using f by (intro readUInt8_cong) simp_all
  moreover have "readUInt8 buf' (off + 3) = readUInt8 b4 (off + 3)"
    using f by (intro readUInt8_cong) simp_all
  moreover have "readUInt16LE buf' (off + 4) = readUInt16LE b5 (off + 4)"
    using f by (intro readUInt16LE_cong) simp_all
  moreover have "readUInt16LE buf' (off + 6) = readUInt16LE b6 (off + 6)"
    using f by (intro readUInt16LE_cong) simp_all
  moreover have "readUInt32LE buf' (off + 8) = readUInt32LE b7 (off + 8)"
    using f by (intro readUInt32LE_cong) simp_all
  ultimately show ?thesis
    unfolding holds_entry_def
    using writeUInt8_read [OF w(1)] writeUInt8_read [OF w(2)] writeUInt8_read [OF w(3)]
      writeUInt8_read [OF w(4)] writeUInt16LE_read [OF w(5)] writeUInt16LE_read [OF w(6)]
      writeUInt32LE_read [OF w(7)] writeUInt32LE_read [OF w(8)]
    by simp
qed

section \<open>The directory table\<close>

lemma forEach_frame:
  "writeDirectories_forEach buf d im ts = Inr buf' \<Longrightarrow>
   length buf' = length buf \<and> (\<forall>j<d. buf' ! j = buf ! j)"
proof (induction ts arbitrary: buf d im)
  case Nil
  then show ?case by simp
next
  case (Cons t ts)
  from Cons.prems obtain b1 where
    w: "writeDirectory buf d (target_directory t im) = Inr b1" and
    r: "writeDirectories_forEach b1 (d + directorySize) (im + stat_size t) ts = Inr buf'"
    by (auto split: sum.splits)
  from Cons.IH [OF r] have "length buf' = length b1" "\<forall>j<d. buf' ! j = b1 ! j"
    by simp_all
  with writeDirectory_frame [OF w] show ?case by simp
qed

lemma forEach_entry:
  "writeDirectories_forEach buf d im ts = Inr buf' \<Longrightarrow> i < length ts \<Longrightarrow>
   holds_entry buf' (d + 16 * i)
     (target_directory (ts ! i) (im + sum_list (map stat_size (take i ts))))"
proof (induction ts arbitrary: buf d im i)
  case Nil
  then show ?case by simp
next
  case (Cons t ts)
  from Cons.prems(1) obtain b1 where
    w: "writeDirectory buf d (target_directory t im) = Inr b1" and
    r: "writeDirectories_forEach b1 (d + 16) (im + stat_size t) ts = Inr buf'"
    by (auto simp: directorySize_def split: sum.splits)
  show ?case
  proof (cases i)
    case 0
    have "holds_entry buf' d (target_directory t im) = holds_entry b1 d (target_directory t im)"
      using forEach_frame [OF r] by (intro holds_entry_cong) simp_all
    with writeDirectory_holds [OF w] 0 show ?thesis by simp
  next
    case (Suc k)
    with Cons.prems(2) have "k < length ts" by simp
    from Cons.IH [OF r this] Suc show ?thesis by (simp add: add.assoc)
  qed
qed

lemma writeDirectories_entry:
  assumes "writeDirectories buf targets = Inr buf'" and "i < length targets"
  shows "holds_entry buf' (6 + 16 * i)
     (target_directory (targets ! i)
        (6 + 16 * int (length targets) + sum_list (map stat_size (take i targets))))"
  using forEach_entry [of buf 6 "6 + 16 * int (length targets)" targets buf' i] assms
  by (simp add: writeDirectories_def headerSize_def directorySize_def)

section \<open>Filter, promises and the directory check\<close>

lemma some_size_iff: "some_size s sizes = (s \<in> set sizes)"
  by (induction sizes) auto

lemma settle_chain:
  "settle rd prev log = (None, log) \<Longrightarrow>
   settle rd (foldl (\<lambda>prev current. Then prev (PromiseObject current)) prev tasks) log = (None, log)"
  by (induction tasks arbitrary: prev) simp_all

lemma writeImages_callbacks: "callbacks (writeImages e chunks targets) = [None]"
  by (simp add: writeImages_def Let_def settle_chain)

lemma writeImages_thrown: "thrown (writeImages e chunks targets) = None"
  by (simp add: writeImages_def Let_def)

lemma not_a_directory_Stats: "\<not> not_a_directory (Stats n)"
  by (simp add: not_a_directory_def Stats_def js_and_def)

lemma invalid_neq: "invalid_targets \<noteq> invalid_dest" "invalid_dest \<noteq> invalid_targets"
  by (simp_all add: invalid_targets_def invalid_dest_def)

section \<open>The header and the written stream\<close>

lemma writeHeader_Inr:
  assumes "writeHeader buf t c = Inr b"
  shows "length b = length buf" and "\<And>j. 6 \<le> j \<Longrightarrow> b ! j = buf ! j"
    and "readUInt16LE b 0 = Inr 0" and "readUInt16LE b 2 = Inr t" and "readUInt16LE b 4 = Inr c"
proof -
  from assms obtain b1 b2 where w:
    "writeUInt16LE buf 0 0 = Inr b1" "writeUInt16LE b1 t 2 = Inr b2" "writeUInt16LE b2 c 4 = Inr b"
    unfolding writeHeader_def and_then_def by (auto split: sum.splits)
  note f = writeUInt16LE_frame [OF w(1)] writeUInt16LE_frame [OF w(2)] writeUInt16LE_frame [OF w(3)]
  show "length b = length buf" using f by simp
  show "b ! j = buf ! j" if "6 \<le> j" for j using f that by simp
  have "readUInt16LE b 0 = readUInt16LE b1 0"
    using f by (intro readUInt16LE_cong) simp_all
  with writeUInt16LE_read [OF w(1)] show "readUInt16LE b 0 = Inr 0" by simp
  have "readUInt16LE b 2 = readUInt16LE b2 2"
    using f by (intro readUInt16LE_cong) simp_all
  with writeUInt16LE_read [OF w(2)] show "readUInt16LE b 2 = Inr t" by simp
  show "readUInt16LE b 4 = Inr c" by (rule writeUInt16LE_read [OF w(3)])
qed

lemma readUInt16LE_zero_byte:
  "readUInt16LE b off = Inr 0 \<Longrightarrow> readUInt8 b off = Inr 0"
proof -
  assume a: "readUInt16LE b off = Inr 0"
  have z: "x = 0" if "x + 256 * y = 0" "0 \<le> x" "0 \<le> y" for x y :: int
    using that by linarith
  from a have "off + 2 \<le> length b" "uint (b ! off) + 256 * uint (b ! (off + 1)) = 0"
    by (simp_all add: readUInt16LE_def checkOffset_def split: if_splits)
  then have "off + 1 \<le> length b" "uint (b ! off) = 0"
    using z [of "uint (b ! off)" "uint (b ! (off + 1))"] by simp_all
  then show ?thesis
    by (simp add: readUInt8_def checkOffset_def)
qed

lemma header_and_directories_Inr:
  assumes "header_and_directories mem targets = Inr block"
  shows "length block = 6 + 16 * length targets"
    and "readHeader block = Inr \<lparr>hdr_reserved = 0, hdr_type = 1, hdr_count = int (length targets)\<rparr>"
    and "readUInt8 block 0 = Inr 0"
    and "i < length targets \<Longrightarrow>
         holds_entry block (6 + 16 * i)
           (target_directory (targets ! i)
              (6 + 16 * int (length targets) + sum_list (map stat_size (take i targets))))"
proof -
  from assms obtain b where
    h: "writeHeader (new_Buffer mem (6 + 16 * length targets)) 1 (int (length targets)) = Inr b"
    and d: "writeDirectories b targets = Inr block"
    unfolding header_and_directories_def and_then_def headerSize_def directorySize_def
    by (auto split: sum.splits)
  have f: "length block = length b" "\<forall>j<6. block ! j = b ! j"
    using forEach_frame [of b 6 _ targets block] d
    by (simp_all add: writeDirectories_def headerSize_def)
  show "length block = 6 + 16 * length targets"
    using f writeHeader_Inr(1) [OF h] by (simp add: new_Buffer_def)
  have "readUInt16LE block 0 = readUInt16LE b 0"
    using f by (intro readUInt16LE_cong) simp_all
  moreover have "readUInt16LE block 2 = readUInt16LE b 2"
    using f by (intro readUInt16LE_cong) simp_all
  moreover have "readUInt16LE block 4 = readUInt16LE b 4"
    using f by (intro readUInt16LE_cong) simp_all
  ultimately have "readUInt16LE block 0 = readUInt16LE b 0" "readUInt16LE block 2 = readUInt16LE b 2"
    "readUInt16LE block 4 = readUInt16LE b 4"
    by simp_all
  with writeHeader_Inr [OF h]
  have r: "readUInt16LE block 0 = Inr 0" "readUInt16LE block 2 = Inr 1"
    "readUInt16LE block 4 = Inr (int (length targets))"
    by simp_all
  then show "readHeader block =
      Inr \<lparr>hdr_reserved = 0, hdr_type = 1, hdr_count = int (length targets)\<rparr>"
    by (simp add: readHeader_def and_then_def)
  show "readUInt8 block 0 = Inr 0" using r(1) by (rule readUInt16LE_zero_byte)
  show "holds_entry block (6 + 16 * i)
           (target_directory (targets ! i)
              (6 + 16 * int (length targets) + sum_list (map stat_size (take i targets))))"
    if "i < length targets"
    using d that by (rule writeDirectories_entry)
qed

lemma readFile_callbacks_append:
  "\<exists>more. readFile_callbacks rd ks chunks = chunks @ more"
proof (induction ks arbitrary: chunks)
  case Nil
  then show ?case by simp
next
  case (Cons k ks)
  show ?case
  proof (cases "rd k")
    case (Inl err)
    with Cons.IH [of chunks] show ?thesis by simp
  next
    case (Inr data)
    with Cons.IH [of "chunks @ [data]"] show ?thesis by auto
  qed
qed

lemma readHeader_append:
  assumes "readHeader a = Inr h"
  shows "readHeader (a @ b) = Inr h"
proof -
  from assms have "6 \<le> length a"
    by (auto simp: readHeader_def and_then_def readUInt16LE_def checkOffset_def
        split: sum.splits if_splits)
  then have "readUInt16LE (a @ b) 0 = readUInt16LE a 0" "readUInt16LE (a @ b) 2 = readUInt16LE a 2"
    "readUInt16LE (a @ b) 4 = readUInt16LE a 4"
    by (auto simp: readUInt16LE_def checkOffset_def nth_append)
  with assms show ?thesis by (simp add: readHeader_def)
qed

lemma write_stream:
  assumes "stream (IcoEditor_write e targets dest) = Some chunks"
  shows "\<exists>block more. chunks = block # more \<and> header_and_directories (memory e) targets = Inr block"
proof -
  from assms obtain block where
    b: "header_and_directories (memory e) targets = Inr block" and
    s: "stream (writeImages e [block] targets) = Some chunks"
    unfolding IcoEditor_write_def header_and_directories_def
    by (auto split: if_splits sum.splits)
  from s readFile_callbacks_append [of _ _ "[block]"] have "\<exists>more. chunks = block # more"
    by (auto simp: writeImages_def Let_def)
  with b show ?thesis by blast
qed

section \<open>When the writer succeeds\<close>

lemma writeDirectory_succeeds:
  assumes "off + 16 \<le> length buf"
    and "0 \<le> width d" "width d \<le> 255" "0 \<le> height d" "height d \<le> 255"
    and "0 \<le> colors d" "colors d \<le> 255" "0 \<le> planes d" "planes d \<le> 65535"
    and "0 \<le> bpp d" "bpp d \<le> 65535" "0 \<le> data_size d" "data_size d \<le> 4294967295"
    and "0 \<le> data_offset d" "data_offset d \<le> 4294967295"
  shows "\<exists>buf'. writeDirectory buf off d = Inr buf'"
  using assms
  by (simp add: writeDirectory_def and_then_def writeUInt8_def writeUInt16LE_def
      writeUInt32LE_def checkInt_def)

lemma forEach_succeeds:
  "d + 16 * length ts \<le> length buf \<Longrightarrow>
   list_all (\<lambda>t. 0 \<le> img_size t \<and> 0 \<le> stat_size t) ts \<Longrightarrow>
   0 \<le> im \<Longrightarrow> im + sum_list (map stat_size ts) \<le> 4294967295 \<Longrightarrow>
   \<exists>buf'. writeDirectories_forEach buf d im ts = Inr buf'"
proof (induction ts arbitrary: buf d im)
  case Nil
  then show ?case by simp
next
  case (Cons t ts)
  have nn: "0 \<le> sum_list (map stat_size ts)"
    using Cons.prems(2) by (intro sum_list_nonneg) (auto simp: list_all_iff)
  have t: "0 \<le> img_size t" "0 \<le> stat_size t" using Cons.prems(2) by simp_all
  have "\<exists>b1. writeDirectory buf d (target_directory t im) = Inr b1"
    using Cons.prems t nn
    by (intro writeDirectory_succeeds) (simp_all add: target_directory_def)
  then obtain b1 where w: "writeDirectory buf d (target_directory t im) = Inr b1" ..
  have "\<exists>buf'. writeDirectories_forEach b1 (d + 16) (im + stat_size t) ts = Inr buf'"
    using Cons.prems t writeDirectory_frame(1) [OF w]
    by (intro Cons.IH) simp_all
  with w show ?case by (simp add: directorySize_def)
qed

lemma header_and_directories_succeeds:
  assumes "fields_fit targets"
  shows "\<exists>block. header_and_directories mem targets = Inr block"
proof -
  let ?n = "6 + 16 * length targets"
  have "\<exists>b. writeHeader (new_Buffer mem ?n) 1 (int (length targets)) = Inr b"
    using assms
    by (simp add: writeHeader_def and_then_def writeUInt16LE_def checkInt_def new_Buffer_def
        fields_fit_def)
  then obtain b where h: "writeHeader (new_Buffer mem ?n) 1 (int (length targets)) = Inr b" ..
  have "length b = ?n" using writeHeader_Inr(1) [OF h] by (simp add: new_Buffer_def)
  then have "\<exists>block. writeDirectories_forEach b 6 (6 + 16 * int (length targets)) targets = Inr block"
    using assms by (intro forEach_succeeds) (simp_all add: fields_fit_def)
  with h show ?thesis
    by (simp add: header_and_directories_def and_then_def writeDirectories_def
        headerSize_def directorySize_def)
qed

lemma writeDirectories_succeeds:
  assumes "6 + 16 * length targets \<le> length buf" and "fields_fit targets"
  shows "\<exists>buf'. writeDirectories buf targets = Inr buf'"
  unfolding writeDirectories_def headerSize_def directorySize_def
  using assms by (intro forEach_succeeds) (simp_all add: fields_fit_def)

lemma write_stream_succeeds:
  assumes "targets \<noteq> []" and "fs e (Path_dirname e dest) \<noteq> None" and "fields_fit targets"
  shows "stream (IcoEditor_write e targets dest) \<noteq> None"
proof -
  from assms(2) obtain n where n: "fs e (Path_dirname e dest) = Some n" by auto
  from header_and_directories_succeeds [OF assms(3)] obtain block where
    "header_and_directories (memory e) targets = Inr block" ..
  then show ?thesis
    using assms(1) n
    by (simp add: IcoEditor_write_def statSync_def not_a_directory_Stats
        header_and_directories_def writeImages_def Let_def)
qed

section \<open>Reading a written directory entry back\<close>

lemma readDirectory_written:
  assumes "header_and_directories mem targets = Inr block" and "i < length targets"
  shows "readDirectory block (6 + 16 * i) =
     Inr \<lparr>width = 0,
          height = (if 256 \<le> img_size (targets ! i) then 0 else img_size (targets ! i)),
          colors = 0, reserved = 0, planes = 1, bpp = 32,
          data_size = stat_size (targets ! i),
          data_offset = 6 + 16 * int (length targets) + sum_list (map stat_size (take i targets))\<rparr>"
  using header_and_directories_Inr(3) [OF assms(1)] header_and_directories_Inr(4) [OF assms]
  by (simp add: readDirectory_def and_then_def holds_entry_def target_directory_def add.assoc)

lemma sample_directories: "writeDirectories header_block [t16, t256] = Inr sample_block"
  by code_simp

lemma sample_stat_file:
  "statSync (fs (sample_env (\<lambda>k. 0))) (Path_dirname (sample_env (\<lambda>k. 0)) dest_below_file)
     = Inr (Stats (RegularFile [1, 2, 3]))"
  by code_simp

lemma sample_stat_missing:
  "fs (sample_env (\<lambda>k. 0)) (Path_dirname (sample_env (\<lambda>k. 0)) dest_below_nothing) = None"
  by code_simp

lemma sample_parent_exists: "fs (sample_env (\<lambda>k. 0)) (Path_dirname (sample_env (\<lambda>k. 0)) ''/tmp/app.ico'') \<noteq> None"
  by code_simp

lemma sample_fields_fit: "fields_fit [t16, t256]"
  by (simp add: fields_fit_def t16_def t256_def)

section \<open>Offsets, widths and heights in the directory table\<close>

lemma dataOffset_entry:
  assumes "writeDirectories buf targets = Inr buf'" and "i < length targets"
  shows "readUInt32LE buf' (6 + 16 * i + 12) =
           Inr (6 + 16 * int (length targets) + sum_list (map stat_size (take i targets)))
         \<and> (i = 0 \<longrightarrow> readUInt32LE buf' (6 + 12) = Inr (6 + 16 * int (length targets)))
         \<and> (0 < i \<longrightarrow>
              (\<exists>off sz. readUInt32LE buf' (6 + 16 * (i - 1) + 12) = Inr off
                 \<and> readUInt32LE buf' (6 + 16 * (i - 1) + 8) = Inr sz
                 \<and> readUInt32LE buf' (6 + 16 * i + 12) = Inr (off + sz)))"
proof (intro conjI impI)
  show first: "readUInt32LE buf' (6 + 16 * i + 12) =
           Inr (6 + 16 * int (length targets) + sum_list (map stat_size (take i targets)))"
    using writeDirectories_entry [OF assms]
    by (simp add: holds_entry_def target_directory_def add.assoc)
  show "readUInt32LE buf' (6 + 12) = Inr (6 + 16 * int (length targets))" if "i = 0"
    using first that by simp
  show "\<exists>off sz. readUInt32LE buf' (6 + 16 * (i - 1) + 12) = Inr off
                 \<and> readUInt32LE buf' (6 + 16 * (i - 1) + 8) = Inr sz
                 \<and> readUInt32LE buf' (6 + 16 * i + 12) = Inr (off + sz)" if "0 < i"
  proof -
    from that obtain k where k: "i = Suc k" by (cases i) simp_all
    with assms(2) have kl: "k < length targets" by simp
    have "take (Suc k) targets = take k targets @ [targets ! k]"
      using kl by (simp add: take_Suc_conv_app_nth)
    then have s: "sum_list (map stat_size (take i targets)) =
        sum_list (map stat_size (take k targets)) + stat_size (targets ! k)"
      using k by simp
    from writeDirectories_entry [OF assms(1) kl]
    have "readUInt32LE buf' (6 + 16 * k + 12) =
           Inr (6 + 16 * int (length targets) + sum_list (map stat_size (take k targets)))"
      "readUInt32LE buf' (6 + 16 * k + 8) = Inr (stat_size (targets ! k))"
      by (simp_all add: holds_entry_def target_directory_def add.assoc)
    with s k first show ?thesis by (simp add: add.assoc)
  qed
qed

lemma width_height_entry:
  assumes "writeDirectories buf targets = Inr buf'" and "i < length targets"
  shows "readUInt8 buf' (6 + 16 * i) = readUInt8 buf' (6 + 16 * i + 1)
         \<and> (img_size (targets ! i) = 256 \<longrightarrow>
              readUInt8 buf' (6 + 16 * i) = Inr 0 \<and> readUInt8 buf' (6 + 16 * i + 1) = Inr 0)
         \<and> (img_size (targets ! i) < 256 \<longrightarrow>
              readUInt8 buf' (6 + 16 * i) = Inr (img_size (targets ! i))
              \<and> readUInt8 buf' (6 + 16 * i + 1) = Inr (img_size (targets ! i)))"
  using writeDirectories_entry [OF assms]
  by (simp add: holds_entry_def target_directory_def add.assoc)

section \<open>The claims\<close>

text \<open>
  Claim C1. Writing the container and then decoding entry \<open>i\<close> with \<open>readDirectory\<close> at
  offset \<open>6 + 16 * i\<close> should give back the width that was written. It does not: the
  reader takes \<open>width\<close> from byte 0 of the buffer, which is the low byte of the header's
  reserved field and hence 0. For the targets of sizes 16 and 256 the block that \<open>write\<close>
  hands to the stream stores the width 16 at offset 6, and \<open>readDirectory\<close> at offset 6
  returns the width 0; height, data size and data offset are the written ones.
\<close>

theorem readDirectory_width_lost:
  "stream (IcoEditor_write (sample_env (\<lambda>k. 0)) [t16, t256] ''/tmp/app.ico'')
     = Some [sample_block, [1, 2, 3], [4, 5]]
   \<and> readUInt8 sample_block 6 = Inr 16
   \<and> readDirectory sample_block 6 =
       Inr \<lparr>width = 0, height = 16, colors = 0, reserved = 0, planes = 1, bpp = 32,
            data_size = 3, data_offset = 38\<rparr>"
  by code_simp

text \<open>
  Claim C2. For a target list of length \<open>N\<close>, the data offset that \<open>writeDirectories\<close>
  writes into entry \<open>i\<close> is \<open>6 + 16 * N\<close> plus the byte lengths of the targets before
  \<open>i\<close>. So entry 0 holds \<open>6 + 16 * N\<close>, and every later entry holds the data offset of
  the entry before it plus that entry's data size. The fields are read from the buffer
  that \<open>writeDirectories\<close> returns, and it does return one whenever the buffer has room
  for the table and the fields fit their widths.
\<close>

theorem dataOffset_written:
  assumes "i < length targets"
  shows "(\<forall>buf'. writeDirectories buf targets = Inr buf' \<longrightarrow>
            readUInt32LE buf' (6 + 16 * i + 12) =
              Inr (6 + 16 * int (length targets) + sum_list (map stat_size (take i targets)))
            \<and> (i = 0 \<longrightarrow> readUInt32LE buf' (6 + 12) = Inr (6 + 16 * int (length targets)))
            \<and> (0 < i \<longrightarrow>
                 (\<exists>off sz. readUInt32LE buf' (6 + 16 * (i - 1) + 12) = Inr off
                    \<and> readUInt32LE buf' (6 + 16 * (i - 1) + 8) = Inr sz
                    \<and> readUInt32LE buf' (6 + 16 * i + 12) = Inr (off + sz))))
         \<and> (6 + 16 * length targets \<le> length buf \<and> fields_fit targets \<longrightarrow>
              (\<exists>buf'. writeDirectories buf targets = Inr buf'))"
proof (intro conjI allI impI)
  fix buf' assume w: "writeDirectories buf targets = Inr buf'"
  note e = dataOffset_entry [OF w assms]
  from e show "readUInt32LE buf' (6 + 16 * i + 12) =
      Inr (6 + 16 * int (length targets) + sum_list (map stat_size (take i targets)))"
    by blast
  from e show "readUInt32LE buf' (6 + 12) = Inr (6 + 16 * int (length targets))" if "i = 0"
    using that by blast
  from e show "\<exists>off sz. readUInt32LE buf' (6 + 16 * (i - 1) + 12) = Inr off
      \<and> readUInt32LE buf' (6 + 16 * (i - 1) + 8) = Inr sz
      \<and> readUInt32LE buf' (6 + 16 * i + 12) = Inr (off + sz)" if "0 < i"
    using that by blast
next
  assume "6 + 16 * length targets \<le> length buf \<and> fields_fit targets"
  then show "\<exists>buf'. writeDirectories buf targets = Inr buf'"
    by (simp add: writeDirectories_succeeds)
qed

theorem dataOffset_written_witness:
  "1 < length [t16, t256]
   \<and> 6 + 16 * length [t16, t256] \<le> length header_block
   \<and> fields_fit [t16, t256]
   \<and> (\<exists>buf'. writeDirectories header_block [t16, t256] = Inr buf')
   \<and> writeDirectories header_block [t16, t256] = Inr sample_block
   \<and> readUInt32LE sample_block (6 + 16 * 1 + 12) =
           Inr (6 + 16 * int (length [t16, t256]) + sum_list (map stat_size (take 1 [t16, t256])))
   \<and> readUInt32LE sample_block (6 + 16 * 1 + 12) = Inr 41
   \<and> (\<exists>off sz. readUInt32LE sample_block (6 + 16 * (1 - 1) + 12) = Inr off
                 \<and> readUInt32LE sample_block (6 + 16 * (1 - 1) + 8) = Inr sz
                 \<and> readUInt32LE sample_block (6 + 16 * 1 + 12) = Inr (off + sz))"
proof -
  have l: "1 < length [t16, t256]" by simp
  have b: "6 + 16 * length [t16, t256] \<le> length header_block"
    by (simp add: header_block_def)
  have v: "readUInt32LE sample_block (6 + 16 * 1 + 12) = Inr 41" by code_simp
  have p: "(0::nat) < 1" by simp
  note t = dataOffset_written [OF l, of header_block]
  have e: "\<exists>buf'. writeDirectories header_block [t16, t256] = Inr buf'"
    using t b sample_fields_fit by blast
  note r = t [THEN conjunct1, rule_format, OF sample_directories]
  from r e sample_directories sample_fields_fit l b v p
  show ?thesis by blast
qed

text \<open>
  Claim C3. In the entry that \<open>writeDirectories\<close> writes for a target, the width byte and
  the height byte are equal; both are 0 when the size of the target is 256, and both are
  the size when it is less than 256. \<open>writeDirectories\<close> writes the table whenever the
  buffer has room for it and the fields fit their widths, for targets of any size from 0
  on, 256 and above included.
\<close>

theorem width_height_written:
  assumes "i < length targets"
  shows "(\<forall>buf'. writeDirectories buf targets = Inr buf' \<longrightarrow>
            readUInt8 buf' (6 + 16 * i) = readUInt8 buf' (6 + 16 * i + 1)
            \<and> (img_size (targets ! i) = 256 \<longrightarrow>
                 readUInt8 buf' (6 + 16 * i) = Inr 0 \<and> readUInt8 buf' (6 + 16 * i + 1) = Inr 0)
            \<and> (img_size (targets ! i) < 256 \<longrightarrow>
                 readUInt8 buf' (6 + 16 * i) = Inr (img_size (targets ! i))
                 \<and> readUInt8 buf' (6 + 16 * i + 1) = Inr (img_size (targets ! i))))
         \<and> (6 + 16 * length targets \<le> length buf \<and> fields_fit targets \<longrightarrow>
              (\<exists>buf'. writeDirectories buf targets = Inr buf'))"
proof (intro conjI allI impI)
  fix buf' assume w: "writeDirectories buf targets = Inr buf'"
  note e = width_height_entry [OF w assms]
  from e show "readUInt8 buf' (6 + 16 * i) = readUInt8 buf' (6 + 16 * i + 1)"
    by blast
  from e show "readUInt8 buf' (6 + 16 * i) = Inr 0" "readUInt8 buf' (6 + 16 * i + 1) = Inr 0"
    if "img_size (targets ! i) = 256"
    using that by blast+
  from e show "readUInt8 buf' (6 + 16 * i) = Inr (img_size (targets ! i))"
    "readUInt8 buf' (6 + 16 * i + 1) = Inr (img_size (targets ! i))"
    if "img_size (targets ! i) < 256"
    using that by blast+
next
  assume "6 + 16 * length targets \<le> length buf \<and> fields_fit targets"
  then show "\<exists>buf'. writeDirectories buf targets = Inr buf'"
    by (simp add: writeDirectories_succeeds)
qed

theorem width_height_written_witness:
  "0 < length [t16, t256] \<and> 1 < length [t16, t256]
   \<and> 6 + 16 * length [t16, t256] \<le> length header_block
   \<and> fields_fit [t16, t256]
   \<and> (\<exists>buf'. writeDirectories header_block [t16, t256] = Inr buf')
   \<and> writeDirectories header_block [t16, t256] = Inr sample_block
   \<and> img_size ([t16, t256] ! 0) < 256 \<and> img_size ([t16, t256] ! 1) = 256
   \<and> readUInt8 sample_block (6 + 16 * 0) = Inr (img_size ([t16, t256] ! 0))
   \<and> readUInt8 sample_block (6 + 16 * 0 + 1) = Inr (img_size ([t16, t256] ! 0))
   \<and> readUInt8 sample_block (6 + 16 * 1) = Inr 0
   \<and> readUInt8 sample_block (6 + 16 * 1 + 1) = Inr 0
   \<and> readUInt8 sample_block (6 + 16 * 1) = readUInt8 sample_block (6 + 16 * 1 + 1)"
proof -
  have l: "0 < length [t16, t256]" "1 < length [t16, t256]" by simp_all
  have b: "6 + 16 * length [t16, t256] \<le> length header_block"
    by (simp add: header_block_def)
  have s: "img_size ([t16, t256] ! 0) < 256" "img_size ([t16, t256] ! 1) = 256"
    by (simp_all add: t16_def t256_def)
  note t0 = width_height_written [OF l(1), of header_block]
  note t1 = width_height_written [OF l(2), of header_block]
  have e: "\<exists>buf'. writeDirectories header_block [t16, t256] = Inr buf'"
    using t1 b sample_fields_fit by blast
  note r0 = t0 [THEN conjunct1, rule_format, OF sample_directories]
  note r1 = t1 [THEN conjunct1, rule_format, OF sample_directories]
  from r0 r1 e sample_directories sample_fields_fit l b s
  show ?thesis by blast
qed

text \<open>
  Claim C4. \<open>filter\<close> returns the records whose size is one of 16, 24, 32, 48, 64, 128 and
  256, in their order and with their duplicates (it is the list filter with that test);
  for an empty and for an absent input it returns the empty list.
\<close>

theorem filter_images_spec:
  "filter_images None = []
   \<and> filter_images (Some []) = []
   \<and> filter_images (Some images) =
       filter (\<lambda>image. img_size image \<in> {16, 24, 32, 48, 64, 128, 256}) images"
  by (cases images) (simp_all add: filter_images_def some_size_iff IcoImageSizes_def)

text \<open>
  Claim C5. For a non-empty target list, \<open>readHeader\<close> applied to the bytes that \<open>write\<close>
  hands to the stream gives reserved 0, type 1 and a count equal to the number of targets.
  The stream exists whenever the parent of the destination exists and the fields fit
  their widths.
\<close>

theorem readHeader_written:
  assumes "targets \<noteq> []"
  shows "(\<forall>chunks. stream (IcoEditor_write e targets dest) = Some chunks \<longrightarrow>
            readHeader (concat chunks) =
              Inr \<lparr>hdr_reserved = 0, hdr_type = 1, hdr_count = int (length targets)\<rparr>)
         \<and> (fs e (Path_dirname e dest) \<noteq> None \<and> fields_fit targets \<longrightarrow>
              stream (IcoEditor_write e targets dest) \<noteq> None)"
proof (intro conjI allI impI)
  fix chunks assume "stream (IcoEditor_write e targets dest) = Some chunks"
  from write_stream [OF this] obtain block more where
    c: "chunks = block # more" and b: "header_and_directories (memory e) targets = Inr block"
    by blast
  have "readHeader (block @ concat more) =
      Inr \<lparr>hdr_reserved = 0, hdr_type = 1, hdr_count = int (length targets)\<rparr>"
    using header_and_directories_Inr(2) [OF b] by (rule readHeader_append)
  then show "readHeader (concat chunks) =
      Inr \<lparr>hdr_reserved = 0, hdr_type = 1, hdr_count = int (length targets)\<rparr>"
    unfolding c by simp
next
  assume "fs e (Path_dirname e dest) \<noteq> None \<and> fields_fit targets"
  with assms show "stream (IcoEditor_write e targets dest) \<noteq> None"
    by (simp add: write_stream_succeeds)
qed

theorem readHeader_written_witness:
  "[t16, t256] \<noteq> []
   \<and> stream (IcoEditor_write (sample_env (\<lambda>k. 0)) [t16, t256] ''/tmp/app.ico'')
       = Some [sample_block, [1, 2, 3], [4, 5]]
   \<and> readHeader (concat [sample_block, [1, 2, 3], [4, 5]]) =
       Inr \<lparr>hdr_reserved = 0, hdr_type = 1, hdr_count = int (length [t16, t256])\<rparr>
   \<and> fs (sample_env (\<lambda>k. 0)) (Path_dirname (sample_env (\<lambda>k. 0)) ''/tmp/app.ico'') \<noteq> None
   \<and> fields_fit [t16, t256]
   \<and> stream (IcoEditor_write (sample_env (\<lambda>k. 0)) [t16, t256] ''/tmp/app.ico'') \<noteq> None"
proof -
  have n: "[t16, t256] \<noteq> []" by simp
  have s: "stream (IcoEditor_write (sample_env (\<lambda>k. 0)) [t16, t256] ''/tmp/app.ico'')
       = Some [sample_block, [1, 2, 3], [4, 5]]"
    by code_simp
  note p = sample_parent_exists and f = sample_fields_fit
  from readHeader_written [OF n, of "sample_env (\<lambda>k. 0)" "''/tmp/app.ico''"] s p f
  show ?thesis by blast
qed

text \<open>
  Claim C6. When the read of an image fails, \<open>write\<close> should call \<open>cb\<close> with the error of
  that read. It does not: the file of the target \<open>t32\<close> does not exist, so its read fails
  with \<open>ENOENT\<close>, and \<open>write\<close> calls \<open>cb\<close> once and without an error. The handlers given
  to \<open>then\<close> in \<open>writeImages\<close> are promise objects, not functions, so the chain that ends
  in the call of \<open>cb\<close> never waits for a read and never sees its rejection.
\<close>

theorem read_error_not_reported:
  "readFile (fs (sample_env (\<lambda>k. 0))) (img_path t32) = Inl (ENOENT ''/tmp/32.png'')
   \<and> thrown (IcoEditor_write (sample_env (\<lambda>k. 0)) [t16, t32] ''/tmp/app.ico'') = None
   \<and> callbacks (IcoEditor_write (sample_env (\<lambda>k. 0)) [t16, t32] ''/tmp/app.ico'') = [None]"
  by code_simp

text \<open>
  Claim C7. For a destination whose parent directory does not exist, \<open>write\<close> should call
  \<open>cb\<close> with an error of the kind \<open>InvalidArguments\<close>. It does not: \<open>Fs.statSync\<close> throws
  for the missing parent, the exception leaves \<open>write\<close>, and \<open>cb\<close> is never called.
  Nothing is written to the destination.
\<close>

theorem missing_parent_throws:
  "fs (sample_env (\<lambda>k. 0)) (Path_dirname (sample_env (\<lambda>k. 0)) ''/nowhere/app.ico'') = None
   \<and> IcoEditor_write (sample_env (\<lambda>k. 0)) [t16] ''/nowhere/app.ico'' =
       \<lparr>thrown = Some (ENOENT ''/nowhere''), stream = None, callbacks = []\<rparr>"
  by code_simp

text \<open>
  Claim C8. With an empty target list and any destination, \<open>write\<close> calls \<open>cb\<close> exactly
  once, with an error of the kind \<open>InvalidArguments\<close>; it throws nothing and never opens
  the destination.
\<close>

theorem write_empty_targets:
  "callbacks (IcoEditor_write e [] dest) = [Some invalid_targets]
   \<and> InvalidArguments invalid_targets
   \<and> stream (IcoEditor_write e [] dest) = None
   \<and> thrown (IcoEditor_write e [] dest) = None"
  by (simp add: IcoEditor_write_def invalid_targets_def)

text \<open>
  Claim C9. The image contents should reach the destination in the order of the targets,
  whatever the order in which the reads complete. They do not: when the read of the second
  target completes before the read of the first, the content of the second is written
  first. The directory entry of the first target records the data offset 38, and the byte
  at offset 38 of the written stream is the first byte of the second image.
\<close>

theorem payload_in_completion_order:
  "readFile (fs (sample_env (\<lambda>k. 1 - k))) (img_path t16) = Inr [1, 2, 3]
   \<and> readFile (fs (sample_env (\<lambda>k. 1 - k))) (img_path t256) = Inr [4, 5]
   \<and> stream (IcoEditor_write (sample_env (\<lambda>k. 1 - k)) [t16, t256] ''/tmp/app.ico'')
       = Some [sample_block, [4, 5], [1, 2, 3]]
   \<and> readUInt32LE sample_block (6 + 12) = Inr 38
   \<and> readUInt8 (concat [sample_block, [4, 5], [1, 2, 3]]) 38 = Inr 4"
  by code_simp

text \<open>
  Claim C10. The branch of \<open>write\<close> that reports the missing parent directory through
  \<open>cb\<close> is never taken. Whenever \<open>Fs.statSync\<close> returns, its result is an object and its
  property \<open>isDirectory\<close> is a function, so the test \<open>!( stat && stat.isDirectory )\<close> is
  false, also for a parent that is a regular file; no call of \<open>cb\<close> ever carries that
  error. For a non-empty target list and a parent that does not exist, \<open>Fs.statSync\<close>
  throws: \<open>write\<close> ends with that exception, without a call of \<open>cb\<close> and without opening
  the destination.
\<close>

theorem parent_check_unreachable:
  "(\<forall>stat. statSync (fs e) (Path_dirname e dest) = Inr stat \<longrightarrow> \<not> not_a_directory stat)
   \<and> Some invalid_dest \<notin> set (callbacks (IcoEditor_write e targets dest))
   \<and> (targets \<noteq> [] \<and> fs e (Path_dirname e dest) = None \<longrightarrow>
        thrown (IcoEditor_write e targets dest) = Some (ENOENT (Path_dirname e dest))
        \<and> callbacks (IcoEditor_write e targets dest) = []
        \<and> stream (IcoEditor_write e targets dest) = None)"
proof (intro conjI allI impI)
  fix stat assume "statSync (fs e) (Path_dirname e dest) = Inr stat"
  then show "\<not> not_a_directory stat"
    by (auto simp: statSync_def not_a_directory_Stats split: option.splits)
next
  show "Some invalid_dest \<notin> set (callbacks (IcoEditor_write e targets dest))"
    by (auto simp: IcoEditor_write_def statSync_def not_a_directory_Stats invalid_neq
        writeImages_callbacks split: option.splits sum.splits)
next
  assume "targets \<noteq> [] \<and> fs e (Path_dirname e dest) = None"
  then show "thrown (IcoEditor_write e targets dest) = Some (ENOENT (Path_dirname e dest))"
    "callbacks (IcoEditor_write e targets dest) = []"
    "stream (IcoEditor_write e targets dest) = None"
    by (simp_all add: IcoEditor_write_def statSync_def)
qed

theorem parent_check_unreachable_witness:
  "statSync (fs (sample_env (\<lambda>k. 0))) (Path_dirname (sample_env (\<lambda>k. 0)) dest_below_file)
     = Inr (Stats (RegularFile [1, 2, 3]))
   \<and> \<not> not_a_directory (Stats (RegularFile [1, 2, 3]))
   \<and> Some invalid_dest \<notin> set (callbacks (IcoEditor_write (sample_env (\<lambda>k. 0)) [t16] dest_below_file))
   \<and> [t16] \<noteq> []
   \<and> fs (sample_env (\<lambda>k. 0)) (Path_dirname (sample_env (\<lambda>k. 0)) dest_below_nothing) = None
   \<and> thrown (IcoEditor_write (sample_env (\<lambda>k. 0)) [t16] dest_below_nothing)
       = Some (ENOENT (Path_dirname (sample_env (\<lambda>k. 0)) dest_below_nothing))
   \<and> callbacks (IcoEditor_write (sample_env (\<lambda>k. 0)) [t16] dest_below_nothing) = []
   \<and> stream (IcoEditor_write (sample_env (\<lambda>k. 0)) [t16] dest_below_nothing) = None"
proof -
  have n: "[t16] \<noteq> []" by simp
  from parent_check_unreachable [of "sample_env (\<lambda>k. 0)" dest_below_file "[t16]"]
    parent_check_unreachable [of "sample_env (\<lambda>k. 0)" dest_below_nothing "[t16]"]
    sample_stat_file sample_stat_missing n
  show ?thesis by blast
qed

end
